theory Spec2Isabelle
  imports Main "HOL-Library.Word"
begin

section \<open>Python values, dict objects and the object store\<close>

text \<open>
  The values a decoded exchange frame can hold. A Python float is kept as its 64-bit
  pattern: the connector only passes floats on, it never computes with them.
\<close>

datatype pyval =
    PNone
  | PBool bool
  | PInt int
  | PFloat "64 word"
  | PStr string
  | PList "pyval list"
  | PDict "(string \<times> pyval) list"

text \<open>
  A dict object is its items in insertion order, keys distinct. \<open>setitem\<close> is
  \<^verbatim>\<open>d[k] = v\<close>: the value of an existing key is replaced where it stands, a new key
  is appended.
\<close>

type_synonym pydict = "(string \<times> pyval) list"

fun setitem :: "pydict \<Rightarrow> string \<Rightarrow> pyval \<Rightarrow> pydict" where
  "setitem [] k v = [(k, v)]"
| "setitem ((k', v') # d) k v =
     (if k' = k then (k', v) # d else (k', v') # setitem d k v)"

text \<open>\<^verbatim>\<open>d.update(other)\<close>: \<^verbatim>\<open>for k, v in other.items(): d[k] = v\<close>.\<close>

fun update_dict :: "pydict \<Rightarrow> pydict \<Rightarrow> pydict" where
  "update_dict d [] = d"
| "update_dict d ((k, v) # other) = update_dict (setitem d k v) other"

datatype error = KeyError string | NotImplementedError string

text \<open>\<^verbatim>\<open>d[k]\<close> raises KeyError on a missing key; \<^verbatim>\<open>d.get(k)\<close> gives None there.\<close>

definition getitem :: "pydict \<Rightarrow> string \<Rightarrow> error + pyval" where
  "getitem d k = (case map_of d k of None \<Rightarrow> Inl (KeyError k) | Some v \<Rightarrow> Inr v)"

definition get_dict :: "pydict \<Rightarrow> string \<Rightarrow> pyval" where
  "get_dict d k = (case map_of d k of None \<Rightarrow> PNone | Some v \<Rightarrow> v)"

text \<open>
  The translation functions receive \<open>msg\<close> by reference and update it in place, and the
  message they build holds that same object. So dict objects live in a store, addressed
  by references; a call takes the store and returns the store it leaves behind.
\<close>

type_synonym ref = nat

type_synonym store = "ref \<Rightarrow> pydict"

section \<open>wazirx\_order\_book.py\<close>

datatype OrderBookMessageType = SNAPSHOT | DIFF | TRADE

text \<open>
  Modelled from the spec: \<open>WazirxOrderBookMessage\<close> (wazirx\_order\_book\_message.py) is
  not among the sources. The spec's StreamEvent is a tagged variant that carries a
  payload and a timestamp; the record holds the three keyword arguments the constructor
  is called with, \<open>content\<close> being the reference of the dict object passed.
\<close>

record WazirxOrderBookMessage =
  message_type :: OrderBookMessageType
  content :: ref
  timestamp :: pyval

text \<open>\<^verbatim>\<open>if metadata: msg.update(metadata)\<close>: None and the empty dict are falsy.\<close>

definition merge_metadata :: "store \<Rightarrow> ref \<Rightarrow> pydict option \<Rightarrow> store" where
  "merge_metadata h msg metadata =
     (case metadata of
        None \<Rightarrow> h
      | Some md \<Rightarrow> if md = [] then h else h(msg := update_dict (h msg) md))"

text \<open>The items a metadata argument brings: none when it is None.\<close>

definition items_of :: "pydict option \<Rightarrow> pydict" where
  "items_of metadata = (case metadata of None \<Rightarrow> [] | Some md \<Rightarrow> md)"

definition snapshot_message_from_exchange ::
  "store \<Rightarrow> ref \<Rightarrow> pyval \<Rightarrow> pydict option \<Rightarrow> store \<times> WazirxOrderBookMessage" where
  "snapshot_message_from_exchange h msg tstamp metadata =
     (let h1 = merge_metadata h msg metadata
      in (h1, \<lparr>message_type = SNAPSHOT, content = msg, timestamp = tstamp\<rparr>))"

definition diff_message_from_exchange ::
  "store \<Rightarrow> ref \<Rightarrow> pyval \<Rightarrow> pydict option \<Rightarrow> store \<times> WazirxOrderBookMessage" where
  "diff_message_from_exchange h msg tstamp metadata =
     (let h1 = merge_metadata h msg metadata
      in (h1, \<lparr>message_type = DIFF, content = msg, timestamp = tstamp\<rparr>))"

text \<open>
  \<open>TradeType\<close> (hummingbot.core.event.events) is not among the sources:
  \<^verbatim>\<open>float(TradeType.SELL.value)\<close> and \<^verbatim>\<open>float(TradeType.BUY.value)\<close> are the parameters
  \<open>sell_value\<close> and \<open>buy_value\<close>. The dict literal is evaluated before the update, and
  \<^verbatim>\<open>msg["S"]\<close> is its first read: on a missing key the KeyError leaves \<open>msg\<close> with the
  metadata already merged.
\<close>

definition trade_message_from_exchange ::
  "pyval \<Rightarrow> pyval \<Rightarrow> store \<Rightarrow> ref \<Rightarrow> pyval \<Rightarrow> pydict option
     \<Rightarrow> store \<times> (error + WazirxOrderBookMessage)" where
  "trade_message_from_exchange sell_value buy_value h msg tstamp metadata =
     (let h1 = merge_metadata h msg metadata
      in case getitem (h1 msg) ''S'' of
           Inl e \<Rightarrow> (h1, Inl e)
         | Inr s \<Rightarrow>
             (let fields =
                    [(''trade_type'', if s = PStr ''sell'' then sell_value else buy_value),
                     (''trade_id'', get_dict (h1 msg) ''t''),
                     (''update_id'', tstamp),
                     (''price'', get_dict (h1 msg) ''p''),
                     (''amount'', get_dict (h1 msg) ''q'')];
                  h2 = h1(msg := update_dict (h1 msg) fields)
              in (h2, Inr \<lparr>message_type = TRADE, content = msg, timestamp = tstamp\<rparr>)))"

text \<open>
  \<open>from_snapshot\<close> and \<open>restore_from_snapshot_and_diffs\<close> only raise.
  \<open>constants.EXCHANGE_NAME\<close> (wazirx\_constants.py) is not among the sources and is the
  parameter \<open>EXCHANGE_NAME\<close>; \<open>'book\<close> stands for the order book neither of them builds.
\<close>

definition from_snapshot :: "string \<Rightarrow> WazirxOrderBookMessage \<Rightarrow> error + 'book" where
  "from_snapshot EXCHANGE_NAME snapshot =
     Inl (NotImplementedError
            (EXCHANGE_NAME @ '' order book needs to retain individual order data.''))"

definition restore_from_snapshot_and_diffs ::
  "string \<Rightarrow> WazirxOrderBookMessage \<Rightarrow> WazirxOrderBookMessage list \<Rightarrow> error + 'book" where
  "restore_from_snapshot_and_diffs EXCHANGE_NAME snapshot diffs =
     Inl (NotImplementedError
            (EXCHANGE_NAME @ '' order book needs to retain individual order data.''))"

text \<open>
  \<open>logger\<close> reads and writes the module-level \<^verbatim>\<open>_logger\<close>, here the state
  \<open>'logger option\<close> (None until the first call). \<^verbatim>\<open>logging.getLogger\<close> and
  \<^verbatim>\<open>__name__\<close> belong to the interpreter and are the parameters \<open>getLogger\<close> and
  \<open>name\<close>; \<open>getLogger\<close> always gives a logger object, never None. The result is the
  logger returned and the new value of \<^verbatim>\<open>_logger\<close>.
\<close>

definition logger :: "(string \<Rightarrow> 'logger) \<Rightarrow> string \<Rightarrow> 'logger option \<Rightarrow> 'logger \<times> 'logger option" where
  "logger getLogger name g_logger =
     (case g_logger of
        None \<Rightarrow> (let l = getLogger name in (l, Some l))
      | Some l \<Rightarrow> (l, g_logger))"

text \<open>\<open>n\<close> calls of \<open>logger\<close> one after the other: the loggers returned, in order, and the
  final value of \<^verbatim>\<open>_logger\<close>.\<close>

primrec logger_calls ::
  "(string \<Rightarrow> 'logger) \<Rightarrow> string \<Rightarrow> nat \<Rightarrow> 'logger option \<Rightarrow> 'logger list \<times> 'logger option" where
  "logger_calls getLogger name 0 g_logger = ([], g_logger)"
| "logger_calls getLogger name (Suc n) g_logger =
     (case logger getLogger name g_logger of
        (l, g1) \<Rightarrow>
          (case logger_calls getLogger name n g1 of (ls, g2) \<Rightarrow> (l # ls, g2)))"

section \<open>config\_methods.py\<close>

text \<open>
  What the two functions can see of the interpreter: the object the module attribute
  \<^verbatim>\<open>hummingbot.client.settings.required_exchanges\<close> is bound to, and the names each
  collection object holds at the moment (only membership is ever asked of it). The
  settings module is not among the sources, so the state is a parameter.
\<close>

record settings =
  required_exchanges :: ref
  objects :: "ref \<Rightarrow> string list"

text \<open>
  \<open>ConfigVar\<close> (config\_var.py) is not among the sources: the record stands for the
  object built from the four keyword arguments of the call. A zero-argument callable is
  a function of the interpreter state it is invoked in.
\<close>

record ConfigVar =
  key :: string
  prompt :: "string option"
  required_if :: "settings \<Rightarrow> bool"
  type_str :: string

definition new_fee_config_var :: "string \<Rightarrow> ConfigVar" where
  "new_fee_config_var k =
     \<lparr>key = k, prompt = None, required_if = (\<lambda>_. False), type_str = ''decimal''\<rparr>"

text \<open>
  The import statement runs when \<open>using_exchange\<close> is called, in state \<open>created\<close>, and
  binds the local name to the object the module attribute denotes then; the lambda reads
  that object's contents in the state \<open>invoked\<close> it is called in.
\<close>

definition using_exchange :: "string \<Rightarrow> settings \<Rightarrow> (settings \<Rightarrow> bool)" where
  "using_exchange exchange created =
     (let required = required_exchanges created
      in (\<lambda>invoked. exchange \<in> set (objects invoked required)))"

section \<open>The user-stream listener\<close>

text \<open>
  Modelled from the spec: \<open>BitmartAPIUserStreamDataSource\<close>
  (bitmart\_api\_user\_stream\_data\_source.py) is not among the sources, only its test
  file is. The listener below is the ConnectionSession state machine of the spec (4.2)
  under the StreamListener retry policy (4.3). The test file fixes what the spec leaves
  open: the points where the listener waits (connect, the two sends, the reads, ping,
  close) and the text of the log records.
\<close>

datatype ConnectionState =
  Disconnected | Connecting | Authenticating | Subscribing | Live | Closing

text \<open>
  How the listener returns to its caller. Failures are retried without bound, so
  cancellation is the only way out.
\<close>

datatype outcome = Cancelled

text \<open>Where the listener is suspended, or how it has returned to its caller.\<close>

datatype suspension =
    Connect_wait
  | Auth_send
  | Auth_ack
  | Subscribe_send
  | Read_wait
  | Pong_wait
  | Close_wait
  | Backoff_wait
  | Ended outcome

fun conn_state :: "suspension \<Rightarrow> ConnectionState" where
  "conn_state Connect_wait = Connecting"
| "conn_state Auth_send = Authenticating"
| "conn_state Auth_ack = Authenticating"
| "conn_state Subscribe_send = Subscribing"
| "conn_state Read_wait = Live"
| "conn_state Pong_wait = Live"
| "conn_state Close_wait = Closing"
| "conn_state Backoff_wait = Disconnected"
| "conn_state (Ended out) = Disconnected"

text \<open>
  A frame as the translation boundary classifies it: the login acknowledgement
  \<^verbatim>\<open>{"event": "login"}\<close>, an error object with its message, any other decoded value, or
  text that does not decode.
\<close>

datatype frame = Login_ack | Error_object string | Data string | Malformed

text \<open>
  What ends a wait: the awaited operation completes (the transport is up, the send is
  through, the pong is in, the close is done, the backoff has elapsed), a frame arrives,
  the wait's timeout elapses, the operation raises, or the caller cancels.
\<close>

datatype response = Done | Frame frame | Timeout | Failure | Cancellation

datatype request = Auth_request | Subscribe_request

datatype level = INFO | WARNING | ERROR | NETWORK

record listener =
  point :: suspension
  connection :: nat
  sent :: "request list"
  pings :: nat
  output_queue :: "string list"
  log :: "(level \<times> string) list"

text \<open>The log records, as the test file reads them back.\<close>

abbreviation authenticating :: "level \<times> string" where
  "authenticating \<equiv> (INFO, ''Authenticating to User Stream...'')"

abbreviation authenticated :: "level \<times> string" where
  "authenticated \<equiv> (INFO, ''Successfully authenticated to User Stream.'')"

abbreviation subscribed :: "level \<times> string" where
  "subscribed \<equiv> (INFO, ''Successfully subscribed to all Private channels.'')"

abbreviation connect_error :: "level \<times> string" where
  "connect_error \<equiv> (NETWORK, ''Unexpected error occured with BitMart WebSocket Connection'')"

abbreviation login_error :: "string \<Rightarrow> level \<times> string" where
  "login_error m \<equiv> (ERROR, ''WebSocket login errored with message: '' @ m)"

abbreviation auth_error :: "level \<times> string" where
  "auth_error \<equiv> (ERROR, ''Error occurred when authenticating to user stream.'')"

abbreviation subscribe_error :: "level \<times> string" where
  "subscribe_error \<equiv> (ERROR, ''Error occured during subscribing to Bitmart private channels.'')"

abbreviation parse_error :: "level \<times> string" where
  "parse_error \<equiv> (ERROR, ''Unexpected error when parsing BitMart user_stream message. '')"

abbreviation retry_notice :: "level \<times> string" where
  "retry_notice \<equiv>
     (ERROR, ''Unexpected error with BitMart WebSocket connection. Retrying after 30 seconds...'')"

abbreviation ping_timed_out :: "level \<times> string" where
  "ping_timed_out \<equiv> (WARNING, ''WebSocket ping timed out. Going to reconnect...'')"

definition logged :: "listener \<Rightarrow> (level \<times> string) list \<Rightarrow> listener" where
  "logged s records = s\<lparr>log := log s @ records\<rparr>"

definition failed :: "listener \<Rightarrow> (level \<times> string) list \<Rightarrow> listener" where
  "failed s records = (logged s (records @ [retry_notice]))\<lparr>point := Close_wait\<rparr>"

text \<open>
  Modelled from the spec: one transition of the listener (its code is not among the
  sources), None where neither the spec nor the tests give one.
  \<^item> Connecting: the transport comes up and authentication starts; a failure or the
    connect timeout is a ConnectError and reverts to Disconnected, where the retry
    policy waits the backoff.
  \<^item> Authenticating: once the credentials are sent the acknowledgement is awaited; an
    explicit rejection, a timeout or a failing send is an AuthError and goes to Closing.
  \<^item> Subscribing: the tests read the first frame after the login acknowledgement as
    data, so the session is Live as soon as the subscribe request is through.
  \<^item> Live: a decoded frame goes to the output; an error object is fatal; when the
    message timeout elapses a ping is sent, a pong returns to reading, the ping timeout
    goes to Closing.
  \<^item> A malformed frame is logged and skipped, not treated as connection-fatal (4.3,
    7): the session stays Live, reading on the same connection.
  \<^item> Closing: once the close is over the session is Disconnected and the backoff runs;
    the close is best-effort, so this is so whether it completed or failed (4.2).
  \<^item> Cancellation at any wait ends the listener as Cancelled; an ended listener takes
    no further step.
\<close>

definition step :: "listener \<Rightarrow> response \<Rightarrow> listener option" where
  "step s r =
     (case point s of
        Connect_wait \<Rightarrow>
          (case r of
             Done \<Rightarrow> Some ((logged s [authenticating])
                             \<lparr>point := Auth_send, connection := connection s + 1\<rparr>)
           | Failure \<Rightarrow> Some ((logged s [connect_error, retry_notice])\<lparr>point := Backoff_wait\<rparr>)
           | Timeout \<Rightarrow> Some ((logged s [connect_error, retry_notice])\<lparr>point := Backoff_wait\<rparr>)
           | Cancellation \<Rightarrow> Some (s\<lparr>point := Ended Cancelled\<rparr>)
           | Frame f \<Rightarrow> None)
      | Auth_send \<Rightarrow>
          (case r of
             Done \<Rightarrow> Some (s\<lparr>point := Auth_ack, sent := sent s @ [Auth_request]\<rparr>)
           | Failure \<Rightarrow> Some (failed s [auth_error])
           | Cancellation \<Rightarrow> Some (s\<lparr>point := Ended Cancelled\<rparr>)
           | Timeout \<Rightarrow> None
           | Frame f \<Rightarrow> None)
      | Auth_ack \<Rightarrow>
          (case r of
             Frame Login_ack \<Rightarrow> Some ((logged s [authenticated])\<lparr>point := Subscribe_send\<rparr>)
           | Frame (Error_object m) \<Rightarrow> Some (failed s [login_error m, auth_error])
           | Frame (Data d) \<Rightarrow> None
           | Frame Malformed \<Rightarrow> None
           | Timeout \<Rightarrow> Some (failed s [auth_error])
           | Failure \<Rightarrow> Some (failed s [auth_error])
           | Cancellation \<Rightarrow> Some (s\<lparr>point := Ended Cancelled\<rparr>)
           | Done \<Rightarrow> None)
      | Subscribe_send \<Rightarrow>
          (case r of
             Done \<Rightarrow> Some ((logged s [subscribed])
                             \<lparr>point := Read_wait, sent := sent s @ [Subscribe_request]\<rparr>)
           | Failure \<Rightarrow> Some (failed s [subscribe_error])
           | Cancellation \<Rightarrow> Some (s\<lparr>point := Ended Cancelled\<rparr>)
           | Timeout \<Rightarrow> None
           | Frame f \<Rightarrow> None)
      | Read_wait \<Rightarrow>
          (case r of
             Frame (Data d) \<Rightarrow> Some (s\<lparr>output_queue := output_queue s @ [d]\<rparr>)
           | Frame Malformed \<Rightarrow> Some (logged s [parse_error])
           | Frame (Error_object m) \<Rightarrow> Some (failed s [])
           | Frame Login_ack \<Rightarrow> None
           | Timeout \<Rightarrow> Some (s\<lparr>point := Pong_wait, pings := pings s + 1\<rparr>)
           | Cancellation \<Rightarrow> Some (s\<lparr>point := Ended Cancelled\<rparr>)
           | Failure \<Rightarrow> None
           | Done \<Rightarrow> None)
      | Pong_wait \<Rightarrow>
          (case r of
             Done \<Rightarrow> Some (s\<lparr>point := Read_wait\<rparr>)
           | Timeout \<Rightarrow> Some ((logged s [ping_timed_out])\<lparr>point := Close_wait\<rparr>)
           | Cancellation \<Rightarrow> Some (s\<lparr>point := Ended Cancelled\<rparr>)
           | Failure \<Rightarrow> None
           | Frame f \<Rightarrow> None)
      | Close_wait \<Rightarrow>
          (case r of
             Done \<Rightarrow> Some (s\<lparr>point := Backoff_wait\<rparr>)
           | Failure \<Rightarrow> Some (s\<lparr>point := Backoff_wait\<rparr>)
           | Cancellation \<Rightarrow> Some (s\<lparr>point := Ended Cancelled\<rparr>)
           | Timeout \<Rightarrow> None
           | Frame f \<Rightarrow> None)
      | Backoff_wait \<Rightarrow>
          (case r of
             Done \<Rightarrow> Some (s\<lparr>point := Connect_wait\<rparr>)
           | Cancellation \<Rightarrow> Some (s\<lparr>point := Ended Cancelled\<rparr>)
           | Failure \<Rightarrow> None
           | Timeout \<Rightarrow> None
           | Frame f \<Rightarrow> None)
      | Ended out \<Rightarrow> None)"

text \<open>A run: the listener's answers to a sequence of responses, None once a step is.\<close>

fun run :: "listener \<Rightarrow> response list \<Rightarrow> listener option" where
  "run s [] = Some s"
| "run s (r # rs) = (case step s r of None \<Rightarrow> None | Some s1 \<Rightarrow> run s1 rs)"

text \<open>\<open>listen_for_user_stream\<close> starts by opening the connection.\<close>

definition listen_for_user_stream :: listener where
  "listen_for_user_stream =
     \<lparr>point = Connect_wait, connection = 0, sent = [], pings = 0, output_queue = [], log = []\<rparr>"

text \<open>
  The waits between two connections: the close, the backoff and the next connect (or no
  wait at all, the listener having ended). Nothing is sent to the exchange at any of them.
\<close>

definition between_connections :: "suspension \<Rightarrow> bool" where
  "between_connections p =
     (case p of
        Close_wait \<Rightarrow> True
      | Backoff_wait \<Rightarrow> True
      | Connect_wait \<Rightarrow> True
      | Ended out \<Rightarrow> True
      | _ \<Rightarrow> False)"

section \<open>Dict objects: what an update leaves behind\<close>

lemma map_of_setitem: "map_of (setitem d k v) = (map_of d)(k \<mapsto> v)"
  by (induction d k v rule: setitem.induct) (auto simp: fun_eq_iff)

lemma keys_setitem: "fst ` set (setitem d k v) = insert k (fst ` set d)"
  by (induction d k v rule: setitem.induct) auto

lemma distinct_setitem: "distinct (map fst d) \<Longrightarrow> distinct (map fst (setitem d k v))"
  by (induction d k v rule: setitem.induct) (auto simp: keys_setitem)

text \<open>A later item of \<open>other\<close> wins over an earlier one, and both win over \<open>d\<close>.\<close>

lemma map_of_update_dict: "map_of (update_dict d other) = map_of d ++ map_of (rev other)"
  by (induction d other rule: update_dict.induct)
     (auto simp: map_of_setitem fun_eq_iff map_add_def split: option.splits)

lemma distinct_update_dict:
  "distinct (map fst d) \<Longrightarrow> distinct (map fst (update_dict d other))"
  by (induction d other rule: update_dict.induct) (auto simp: distinct_setitem)

lemma merge_metadata_None: "merge_metadata h msg None = h"
  by (simp add: merge_metadata_def)

lemma merge_metadata_Some:
  "merge_metadata h msg (Some md) = h(msg := update_dict (h msg) md)"
  by (simp add: merge_metadata_def)

lemma merge_metadata_other: "r \<noteq> msg \<Longrightarrow> merge_metadata h msg metadata r = h r"
  by (cases metadata) (simp_all add: merge_metadata_def)

lemma merge_metadata_at:
  "merge_metadata h msg metadata msg = update_dict (h msg) (items_of metadata)"
  by (cases metadata) (simp_all add: merge_metadata_def items_of_def)

lemma merge_metadata_eq:
  "merge_metadata h msg metadata = h(msg := update_dict (h msg) (items_of metadata))"
  by (cases metadata) (simp_all add: merge_metadata_def items_of_def)

lemma getitem_Some: "map_of d k = Some v \<Longrightarrow> getitem d k = Inr v"
  by (simp add: getitem_def)

lemma getitem_None: "map_of d k = None \<Longrightarrow> getitem d k = Inl (KeyError k)"
  by (simp add: getitem_def)

section \<open>Claims about wazirx\_order\_book.py\<close>

text \<open>
  C1. Whatever the snapshot message and the diffs, \<open>from_snapshot\<close> and
  \<open>restore_from_snapshot_and_diffs\<close> raise NotImplementedError, with the message
  "\<open>EXCHANGE_NAME\<close> order book needs to retain individual order data."; neither ever
  returns an order book.
\<close>

theorem from_snapshot_not_supported:
  "(from_snapshot EXCHANGE_NAME snapshot :: error + 'book) =
     Inl (NotImplementedError
            (EXCHANGE_NAME @ '' order book needs to retain individual order data.''))
   \<and> (restore_from_snapshot_and_diffs EXCHANGE_NAME snapshot diffs :: error + 'book) =
     Inl (NotImplementedError
            (EXCHANGE_NAME @ '' order book needs to retain individual order data.''))
   \<and> (\<forall>book :: 'book. from_snapshot EXCHANGE_NAME snapshot \<noteq> Inr book)
   \<and> (\<forall>book :: 'book. restore_from_snapshot_and_diffs EXCHANGE_NAME snapshot diffs \<noteq> Inr book)"
  by (simp add: from_snapshot_def restore_from_snapshot_and_diffs_def)

text \<open>
  C3, as the spec states it: the three translation functions leave the caller's \<open>msg\<close>
  as it was. They do not: a snapshot decoded with metadata, and any trade that has its
  side, come back with more keys than they went in with.
\<close>

theorem translation_mutates_msg_counterexample:
  "fst (snapshot_message_from_exchange
          ((\<lambda>_. [])(0 := [(''asks'', PList []), (''bids'', PList [])]))
          0 (PFloat 0x41D850607CB9DB23) (Some [(''trading_pair'', PStr ''BTC-INR'')])) 0
     \<noteq> ((\<lambda>_. [])(0 := [(''asks'', PList []), (''bids'', PList [])])) 0
   \<and> fst (trade_message_from_exchange (PFloat 0x4000000000000000) (PFloat 0x3FF0000000000000)
          ((\<lambda>_. [])(0 := [(''S'', PStr ''sell''), (''p'', PStr ''3600000.0''),
                            (''q'', PStr ''0.00004''), (''t'', PInt 17801054)]))
          0 (PFloat 0x41D850607CB9DB23) None) 0
     \<noteq> ((\<lambda>_. [])(0 := [(''S'', PStr ''sell''), (''p'', PStr ''3600000.0''),
                            (''q'', PStr ''0.00004''), (''t'', PInt 17801054)])) 0"
  by (simp add: snapshot_message_from_exchange_def trade_message_from_exchange_def
        merge_metadata_def getitem_def get_dict_def)

text \<open>
  C3, amended: \<open>snapshot_message_from_exchange\<close> and \<open>diff_message_from_exchange\<close> leave
  \<open>msg\<close> unchanged when metadata is None (or empty) and otherwise update it in place with
  the metadata's items; \<open>trade_message_from_exchange\<close> updates \<open>msg\<close> in place with the
  metadata and, when key "S" is present, with trade\_type, trade\_id, update\_id, price
  and amount. No other object of the store is touched.
\<close>

theorem translation_updates_msg_in_place:
  "fst (snapshot_message_from_exchange h msg tstamp None) = h
   \<and> fst (snapshot_message_from_exchange h msg tstamp (Some md)) = h(msg := update_dict (h msg) md)
   \<and> fst (diff_message_from_exchange h msg tstamp None) = h
   \<and> fst (diff_message_from_exchange h msg tstamp (Some md)) = h(msg := update_dict (h msg) md)
   \<and> (map_of (update_dict (h msg) (items_of metadata)) ''S'' = None \<longrightarrow>
        fst (trade_message_from_exchange sell_value buy_value h msg tstamp metadata) =
          h(msg := update_dict (h msg) (items_of metadata)))
   \<and> (map_of (update_dict (h msg) (items_of metadata)) ''S'' = Some s \<longrightarrow>
        fst (trade_message_from_exchange sell_value buy_value h msg tstamp metadata) =
          h(msg := update_dict (update_dict (h msg) (items_of metadata))
                     [(''trade_type'', if s = PStr ''sell'' then sell_value else buy_value),
                      (''trade_id'', get_dict (update_dict (h msg) (items_of metadata)) ''t''),
                      (''update_id'', tstamp),
                      (''price'', get_dict (update_dict (h msg) (items_of metadata)) ''p''),
                      (''amount'', get_dict (update_dict (h msg) (items_of metadata)) ''q'')]))
   \<and> (\<forall>r. r \<noteq> msg \<longrightarrow>
          fst (snapshot_message_from_exchange h msg tstamp metadata) r = h r
        \<and> fst (diff_message_from_exchange h msg tstamp metadata) r = h r
        \<and> fst (trade_message_from_exchange sell_value buy_value h msg tstamp metadata) r = h r)"
proof -
  let ?d1 = "update_dict (h msg) (items_of metadata)"
  have m: "merge_metadata h msg metadata = h(msg := ?d1)"
    by (rule merge_metadata_eq)
  have snap: "fst (snapshot_message_from_exchange h msg tstamp metadata) = merge_metadata h msg metadata"
    for metadata
    by (simp add: snapshot_message_from_exchange_def Let_def)
  have dif: "fst (diff_message_from_exchange h msg tstamp metadata) = merge_metadata h msg metadata"
    for metadata
    by (simp add: diff_message_from_exchange_def Let_def)
  have t_none: "map_of ?d1 ''S'' = None \<Longrightarrow>
      fst (trade_message_from_exchange sell_value buy_value h msg tstamp metadata) = h(msg := ?d1)"
    by (simp add: trade_message_from_exchange_def Let_def m getitem_None)
  have t_some: "map_of ?d1 ''S'' = Some s \<Longrightarrow>
      fst (trade_message_from_exchange sell_value buy_value h msg tstamp metadata) =
          h(msg := update_dict ?d1
                     [(''trade_type'', if s = PStr ''sell'' then sell_value else buy_value),
                      (''trade_id'', get_dict ?d1 ''t''),
                      (''update_id'', tstamp),
                      (''price'', get_dict ?d1 ''p''),
                      (''amount'', get_dict ?d1 ''q'')])" for s
    by (simp add: trade_message_from_exchange_def Let_def m getitem_Some)
  have t_other: "fst (trade_message_from_exchange sell_value buy_value h msg tstamp metadata) r = h r"
    if "r \<noteq> msg" for r
    using that
    by (cases "map_of ?d1 ''S''") (simp_all add: t_none t_some)
  show ?thesis
    using t_none t_some t_other
    by (simp add: snap dif merge_metadata_None merge_metadata_Some merge_metadata_other)
qed

theorem translation_updates_msg_in_place_witness:
  "fst (trade_message_from_exchange (PFloat 0x4000000000000000) (PFloat 0x3FF0000000000000)
          ((\<lambda>_. [])(0 := [(''S'', PStr ''sell''), (''p'', PStr ''3600000.0'')], 1 := [(''x'', PNone)]))
          0 (PFloat 0x41D850607CB9DB23) (Some [(''trading_pair'', PStr ''BTC-INR'')])) 1
     = [(''x'', PNone)]
   \<and> fst (trade_message_from_exchange (PFloat 0x4000000000000000) (PFloat 0x3FF0000000000000)
          ((\<lambda>_. [])(0 := [(''S'', PStr ''sell''), (''p'', PStr ''3600000.0'')], 1 := [(''x'', PNone)]))
          0 (PFloat 0x41D850607CB9DB23) (Some [(''trading_pair'', PStr ''BTC-INR'')])) 0
     = [(''S'', PStr ''sell''), (''p'', PStr ''3600000.0''), (''trading_pair'', PStr ''BTC-INR''),
        (''trade_type'', PFloat 0x4000000000000000), (''trade_id'', PNone),
        (''update_id'', PFloat 0x41D850607CB9DB23), (''price'', PStr ''3600000.0''),
        (''amount'', PNone)]"
  using translation_updates_msg_in_place
    [where h = "(\<lambda>_. [])(0 := [(''S'', PStr ''sell''), (''p'', PStr ''3600000.0'')], 1 := [(''x'', PNone)])"
       and msg = 0 and tstamp = "PFloat 0x41D850607CB9DB23"
       and metadata = "Some [(''trading_pair'', PStr ''BTC-INR'')]"
       and sell_value = "PFloat 0x4000000000000000" and buy_value = "PFloat 0x3FF0000000000000"
       and s = "PStr ''sell''"]
  by (simp add: items_of_def get_dict_def)

text \<open>
  C7, as the spec states it: for every \<open>msg\<close>, \<open>trade_message_from_exchange\<close> returns a
  message tagged TRADE. A trade frame without the key "S" raises KeyError instead.
\<close>

theorem trade_message_missing_side_counterexample:
  "snd (trade_message_from_exchange (PFloat 0x4000000000000000) (PFloat 0x3FF0000000000000)
          ((\<lambda>_. [])(0 := [(''p'', PStr ''3600000.0''), (''q'', PStr ''0.00004''),
                            (''t'', PInt 17801054)]))
          0 (PFloat 0x41D850607CB9DB23) (Some [(''trading_pair'', PStr ''BTC-INR'')]))
     = Inl (KeyError ''S'')"
  by (simp add: trade_message_from_exchange_def merge_metadata_def getitem_def)

text \<open>
  C7, amended: \<open>snapshot_message_from_exchange\<close> returns a message tagged SNAPSHOT and
  \<open>diff_message_from_exchange\<close> one tagged DIFF, for every \<open>msg\<close>, timestamp and
  metadata; \<open>trade_message_from_exchange\<close> returns one tagged TRADE when \<open>msg\<close>, with the
  metadata merged, has the key "S", and raises KeyError otherwise. Each message has the
  timestamp argument as its timestamp and the \<open>msg\<close> object as its content, whose items
  are then those of \<open>msg\<close> overridden by the metadata's and, for a trade, by trade\_type
  (the sell value exactly when "S" is "sell"), trade\_id, update\_id, price and amount.
\<close>

theorem message_constructors_tagged:
  "snd (snapshot_message_from_exchange h msg tstamp metadata) =
     \<lparr>message_type = SNAPSHOT, content = msg, timestamp = tstamp\<rparr>
   \<and> snd (diff_message_from_exchange h msg tstamp metadata) =
     \<lparr>message_type = DIFF, content = msg, timestamp = tstamp\<rparr>
   \<and> map_of (fst (snapshot_message_from_exchange h msg tstamp metadata) msg) =
     map_of (h msg) ++ map_of (rev (items_of metadata))
   \<and> map_of (fst (diff_message_from_exchange h msg tstamp metadata) msg) =
     map_of (h msg) ++ map_of (rev (items_of metadata))
   \<and> ((map_of (h msg) ++ map_of (rev (items_of metadata))) ''S'' = None \<longrightarrow>
        snd (trade_message_from_exchange sell_value buy_value h msg tstamp metadata) =
          Inl (KeyError ''S''))
   \<and> ((map_of (h msg) ++ map_of (rev (items_of metadata))) ''S'' = Some s \<longrightarrow>
        snd (trade_message_from_exchange sell_value buy_value h msg tstamp metadata) =
          Inr \<lparr>message_type = TRADE, content = msg, timestamp = tstamp\<rparr>
      \<and> map_of (fst (trade_message_from_exchange sell_value buy_value h msg tstamp metadata) msg) =
          (map_of (h msg) ++ map_of (rev (items_of metadata)))
            (''trade_type'' \<mapsto> (if s = PStr ''sell'' then sell_value else buy_value),
             ''trade_id'' \<mapsto>
               (case (map_of (h msg) ++ map_of (rev (items_of metadata))) ''t'' of
                  None \<Rightarrow> PNone | Some v \<Rightarrow> v),
             ''update_id'' \<mapsto> tstamp,
             ''price'' \<mapsto>
               (case (map_of (h msg) ++ map_of (rev (items_of metadata))) ''p'' of
                  None \<Rightarrow> PNone | Some v \<Rightarrow> v),
             ''amount'' \<mapsto>
               (case (map_of (h msg) ++ map_of (rev (items_of metadata))) ''q'' of
                  None \<Rightarrow> PNone | Some v \<Rightarrow> v)))"
proof -
  let ?d1 = "update_dict (h msg) (items_of metadata)"
  let ?m1 = "map_of (h msg) ++ map_of (rev (items_of metadata))"
  have d1: "map_of ?d1 = ?m1"
    by (rule map_of_update_dict)
  have m: "merge_metadata h msg metadata msg = ?d1"
    by (rule merge_metadata_at)
  have snap: "map_of (fst (snapshot_message_from_exchange h msg tstamp metadata) msg) = ?m1"
    by (simp add: snapshot_message_from_exchange_def Let_def m d1)
  have dif: "map_of (fst (diff_message_from_exchange h msg tstamp metadata) msg) = ?m1"
    by (simp add: diff_message_from_exchange_def Let_def m d1)
  have t_none: "snd (trade_message_from_exchange sell_value buy_value h msg tstamp metadata) =
        Inl (KeyError ''S'')" if "?m1 ''S'' = None"
  proof -
    from that have "getitem ?d1 ''S'' = Inl (KeyError ''S'')"
      by (simp add: getitem_None d1)
    then show ?thesis
      by (simp add: trade_message_from_exchange_def Let_def m)
  qed
  have t_some: "snd (trade_message_from_exchange sell_value buy_value h msg tstamp metadata) =
        Inr \<lparr>message_type = TRADE, content = msg, timestamp = tstamp\<rparr>
      \<and> map_of (fst (trade_message_from_exchange sell_value buy_value h msg tstamp metadata) msg) =
          ?m1(''trade_type'' \<mapsto> (if s = PStr ''sell'' then sell_value else buy_value),
             ''trade_id'' \<mapsto> (case ?m1 ''t'' of None \<Rightarrow> PNone | Some v \<Rightarrow> v),
             ''update_id'' \<mapsto> tstamp,
             ''price'' \<mapsto> (case ?m1 ''p'' of None \<Rightarrow> PNone | Some v \<Rightarrow> v),
             ''amount'' \<mapsto> (case ?m1 ''q'' of None \<Rightarrow> PNone | Some v \<Rightarrow> v))"
    if "?m1 ''S'' = Some s"
  proof -
    from that have g: "getitem ?d1 ''S'' = Inr s"
      by (simp add: getitem_Some d1)
    show ?thesis
      by (simp add: trade_message_from_exchange_def Let_def m g map_of_setitem get_dict_def d1)
  qed
  have snap_msg: "snd (snapshot_message_from_exchange h msg tstamp metadata) =
      \<lparr>message_type = SNAPSHOT, content = msg, timestamp = tstamp\<rparr>"
    by (simp add: snapshot_message_from_exchange_def Let_def)
  have dif_msg: "snd (diff_message_from_exchange h msg tstamp metadata) =
      \<lparr>message_type = DIFF, content = msg, timestamp = tstamp\<rparr>"
    by (simp add: diff_message_from_exchange_def Let_def)
  from snap_msg dif_msg snap dif t_none t_some show ?thesis
    by blast
qed

theorem message_constructors_tagged_witness:
  "snd (trade_message_from_exchange (PFloat 0x4000000000000000) (PFloat 0x3FF0000000000000)
          ((\<lambda>_. [])(0 := [(''S'', PStr ''sell''), (''p'', PStr ''3600000.0''),
                            (''q'', PStr ''0.00004''), (''t'', PInt 17801054)]))
          0 (PFloat 0x41D850607CB9DB23) (Some [(''trading_pair'', PStr ''BTC-INR'')]))
     = Inr \<lparr>message_type = TRADE, content = 0, timestamp = PFloat 0x41D850607CB9DB23\<rparr>
   \<and> map_of (fst (trade_message_from_exchange (PFloat 0x4000000000000000) (PFloat 0x3FF0000000000000)
          ((\<lambda>_. [])(0 := [(''S'', PStr ''sell''), (''p'', PStr ''3600000.0''),
                            (''q'', PStr ''0.00004''), (''t'', PInt 17801054)]))
          0 (PFloat 0x41D850607CB9DB23) (Some [(''trading_pair'', PStr ''BTC-INR'')])) 0)
        ''trade_type'' = Some (PFloat 0x4000000000000000)
   \<and> snd (trade_message_from_exchange (PFloat 0x4000000000000000) (PFloat 0x3FF0000000000000)
          ((\<lambda>_. [])(0 := [(''p'', PStr ''3600000.0'')]))
          0 (PFloat 0x41D850607CB9DB23) None)
     = Inl (KeyError ''S'')"
  using message_constructors_tagged
    [where h = "(\<lambda>_. [])(0 := [(''S'', PStr ''sell''), (''p'', PStr ''3600000.0''),
                            (''q'', PStr ''0.00004''), (''t'', PInt 17801054)])"
       and msg = 0 and tstamp = "PFloat 0x41D850607CB9DB23"
       and metadata = "Some [(''trading_pair'', PStr ''BTC-INR'')]"
       and sell_value = "PFloat 0x4000000000000000" and buy_value = "PFloat 0x3FF0000000000000"
       and s = "PStr ''sell''"]
    message_constructors_tagged
    [where h = "(\<lambda>_. [])(0 := [(''p'', PStr ''3600000.0'')])"
       and msg = 0 and tstamp = "PFloat 0x41D850607CB9DB23"
       and metadata = None
       and sell_value = "PFloat 0x4000000000000000" and buy_value = "PFloat 0x3FF0000000000000"]
  by (simp add: items_of_def)

text \<open>
  C8. \<open>logger\<close> is an idempotent singleton accessor over the module-level \<^verbatim>\<open>_logger\<close>: the
  first call creates the logger and stores it, a call that finds one stored returns it
  and stores nothing, so a second call gives what the first gave (logger and state), and
  any number of calls in a row return the first call's logger every time.
\<close>

lemma logger_calls_Some:
  "logger_calls getLogger name n (Some l) = (replicate n l, Some l)"
  by (induction n) (simp_all add: logger_def)

theorem logger_idempotent_singleton:
  "logger getLogger name None = (getLogger name, Some (getLogger name))
   \<and> logger getLogger name (Some l) = (l, Some l)
   \<and> snd (logger getLogger name g) = Some (fst (logger getLogger name g))
   \<and> logger getLogger name (snd (logger getLogger name g)) = logger getLogger name g
   \<and> logger_calls getLogger name (Suc n) g =
       (replicate (Suc n) (fst (logger getLogger name g)), snd (logger getLogger name g))"
proof -
  have one: "snd (logger getLogger name g) = Some (fst (logger getLogger name g))"
    by (cases g) (simp_all add: logger_def Let_def)
  have many: "logger_calls getLogger name (Suc n) g =
       (replicate (Suc n) (fst (logger getLogger name g)), snd (logger getLogger name g))"
    by (cases g) (simp_all add: logger_def Let_def logger_calls_Some)
  have first: "logger getLogger name None = (getLogger name, Some (getLogger name))"
    by (simp add: logger_def Let_def)
  have later: "logger getLogger name (Some l) = (l, Some l)"
    by (simp add: logger_def)
  have twice: "logger getLogger name (snd (logger getLogger name g)) = logger getLogger name g"
    by (cases g) (simp_all add: logger_def Let_def)
  from first later one twice many show ?thesis
    by blast
qed

section \<open>Claims about config\_methods.py\<close>

text \<open>
  C9. Whatever the key, the \<open>ConfigVar\<close> that \<open>new_fee_config_var\<close> returns has a
  \<open>required_if\<close> that gives False in every state it is called in, no prompt, and
  \<open>type_str\<close> "decimal" (and the key it was given).
\<close>

theorem new_fee_config_var_never_required:
  "\<not> required_if (new_fee_config_var k) st
   \<and> prompt (new_fee_config_var k) = None
   \<and> type_str (new_fee_config_var k) = ''decimal''
   \<and> key (new_fee_config_var k) = k"
  by (simp add: new_fee_config_var_def)

text \<open>
  C10. The callable that \<open>using_exchange\<close> returns tests membership when it is invoked,
  not when it was created: it reads the collection object bound at creation in the state
  of the invocation, so while \<^verbatim>\<open>required_exchanges\<close> still names that object its answer
  is membership in \<^verbatim>\<open>required_exchanges\<close> at that moment, later mutations included.
\<close>

theorem using_exchange_reads_at_invocation:
  "using_exchange exchange created invoked =
     (exchange \<in> set (objects invoked (required_exchanges created)))
   \<and> (required_exchanges invoked = required_exchanges created \<longrightarrow>
        using_exchange exchange created invoked =
          (exchange \<in> set (objects invoked (required_exchanges invoked))))"
  by (simp add: using_exchange_def Let_def)

theorem using_exchange_reads_at_invocation_witness:
  "\<not> using_exchange ''binance''
        \<lparr>required_exchanges = 0, objects = (\<lambda>_. [])\<rparr>
        \<lparr>required_exchanges = 0, objects = (\<lambda>_. [])\<rparr>
   \<and> using_exchange ''binance''
        \<lparr>required_exchanges = 0, objects = (\<lambda>_. [])\<rparr>
        \<lparr>required_exchanges = 0, objects = (\<lambda>_. [])(0 := [''binance''])\<rparr>"
  using using_exchange_reads_at_invocation
    [where exchange = "''binance''"
       and created = "\<lparr>required_exchanges = 0, objects = (\<lambda>_. [])\<rparr>"
       and invoked = "\<lparr>required_exchanges = 0, objects = (\<lambda>_. [])\<rparr>"]
    using_exchange_reads_at_invocation
    [where exchange = "''binance''"
       and created = "\<lparr>required_exchanges = 0, objects = (\<lambda>_. [])\<rparr>"
       and invoked = "\<lparr>required_exchanges = 0, objects = (\<lambda>_. [])(0 := [''binance''])\<rparr>"]
  by simp

section \<open>The listener against its test file\<close>

text \<open>
  Each test of test\_bitmart\_api\_user\_stream\_data\_source.py that runs the listener, as
  a run: the responses are what the test's mocks answer, the final state holds the log
  records and the sent requests the test asserts. (The tests of a failure make close
  raise, which is the last response of their runs.) The test of an invalid frame is not
  among them: besides the parse error it reads back the retry notice, a record the
  transitions above do not give for a frame that is skipped.
\<close>

lemma test_listening_process_authenticates_and_subscribes_to_events:
  "run listen_for_user_stream [Done, Done, Frame Login_ack, Done, Frame (Data ''dummyMessage'')] =
     Some \<lparr>point = Read_wait, connection = 1, sent = [Auth_request, Subscribe_request],
           pings = 0, output_queue = [''dummyMessage''],
           log = [authenticating, authenticated, subscribed]\<rparr>"
  by (simp add: step_def logged_def failed_def listen_for_user_stream_def)

lemma test_listening_process_fails_when_authentication_fails:
  "run listen_for_user_stream
       [Done, Done, Frame (Error_object ''test err message''), Failure] =
     Some \<lparr>point = Backoff_wait, connection = 1, sent = [Auth_request],
           pings = 0, output_queue = [],
           log = [authenticating, login_error ''test err message'', auth_error, retry_notice]\<rparr>"
  by (simp add: step_def logged_def failed_def listen_for_user_stream_def)

text \<open>
  \<open>test_listening_process_logs_exception_details_during_initialization\<close> calls the
  connect step alone and reads back its NETWORK record, the first of the two here.
\<close>

lemma test_listening_process_logs_exception_details_during_initialization:
  "run listen_for_user_stream [Failure] =
     Some \<lparr>point = Backoff_wait, connection = 0, sent = [],
           pings = 0, output_queue = [],
           log = [connect_error, retry_notice]\<rparr>"
  by (simp add: step_def logged_def failed_def listen_for_user_stream_def)

lemma test_listening_process_logs_exception_details_during_authentication:
  "run listen_for_user_stream [Done, Failure, Failure] =
     Some \<lparr>point = Backoff_wait, connection = 1, sent = [],
           pings = 0, output_queue = [],
           log = [authenticating, auth_error, retry_notice]\<rparr>"
  by (simp add: step_def logged_def failed_def listen_for_user_stream_def)

lemma test_listening_process_logs_exception_during_events_subscription:
  "run listen_for_user_stream [Done, Done, Frame Login_ack, Failure, Failure] =
     Some \<lparr>point = Backoff_wait, connection = 1, sent = [Auth_request],
           pings = 0, output_queue = [],
           log = [authenticating, authenticated, subscribe_error, retry_notice]\<rparr>"
  by (simp add: step_def logged_def failed_def listen_for_user_stream_def)

lemma test_listen_for_user_stream_inner_messages_recv_timeout:
  "run listen_for_user_stream [Done, Done, Frame Login_ack, Done, Timeout] =
     Some \<lparr>point = Pong_wait, connection = 1, sent = [Auth_request, Subscribe_request],
           pings = 1, output_queue = [],
           log = [authenticating, authenticated, subscribed]\<rparr>"
  by (simp add: step_def logged_def failed_def listen_for_user_stream_def)

lemma test_listen_for_user_stream_inner_messages_recv_timeout_ping_timeout:
  "run listen_for_user_stream [Done, Done, Frame Login_ack, Done, Timeout, Timeout, Done] =
     Some \<lparr>point = Backoff_wait, connection = 1, sent = [Auth_request, Subscribe_request],
           pings = 1, output_queue = [],
           log = [authenticating, authenticated, subscribed, ping_timed_out]\<rparr>"
  by (simp add: step_def logged_def failed_def listen_for_user_stream_def)

lemma run_append:
  "run s (rs @ rs') = (case run s rs of None \<Rightarrow> None | Some t \<Rightarrow> run t rs')"
  by (induction rs arbitrary: s) (simp_all split: option.splits)

section \<open>Claims about the user-stream listener\<close>

text \<open>
  C2. A malformed frame received while the session is Live is logged (the parse error)
  and skipped: the session is still Live on the same connection, nothing is sent, and
  the next frame that decodes is delivered. Of the frames a Live session can receive,
  only an explicit error object takes it to Closing (with the retry notice logged);
  every other one leaves it reading on the same connection.
\<close>

theorem malformed_frame_is_skipped:
  assumes "point s = Read_wait"
  shows "step s (Frame Malformed) = Some (s\<lparr>log := log s @ [parse_error]\<rparr>)
   \<and> run s [Frame Malformed, Frame (Data d)] =
         Some (s\<lparr>output_queue := output_queue s @ [d], log := log s @ [parse_error]\<rparr>)
   \<and> step s (Frame (Error_object m)) =
         Some (s\<lparr>point := Close_wait, log := log s @ [retry_notice]\<rparr>)
   \<and> (\<forall>f t. step s (Frame f) = Some t \<longrightarrow>
          (point t = Close_wait) = (\<exists>e. f = Error_object e))
   \<and> (\<forall>f t. step s (Frame f) = Some t \<and> point t \<noteq> Close_wait \<longrightarrow>
          point t = Read_wait \<and> connection t = connection s \<and> sent t = sent s)"
proof -
  from assms have skipped: "step s (Frame Malformed) = Some (s\<lparr>log := log s @ [parse_error]\<rparr>)"
    by (simp add: step_def logged_def)
  from assms have next_frame: "run s [Frame Malformed, Frame (Data d)] =
      Some (s\<lparr>output_queue := output_queue s @ [d], log := log s @ [parse_error]\<rparr>)"
    by (simp add: step_def logged_def)
  from assms have fatal: "step s (Frame (Error_object m)) =
      Some (s\<lparr>point := Close_wait, log := log s @ [retry_notice]\<rparr>)"
    by (simp add: step_def logged_def failed_def)
  have only_error: "(point t = Close_wait) = (\<exists>e. f = Error_object e)"
    if "step s (Frame f) = Some t" for f t
    using that assms by (cases f) (auto simp: step_def logged_def failed_def)
  have same: "point t = Read_wait \<and> connection t = connection s \<and> sent t = sent s"
    if "step s (Frame f) = Some t" "point t \<noteq> Close_wait" for f t
    using that assms by (cases f) (auto simp: step_def logged_def failed_def)
  from skipped next_frame fatal only_error same show ?thesis
    by blast
qed

theorem malformed_frame_is_skipped_witness:
  "run \<lparr>point = Read_wait, connection = 1, sent = [Auth_request, Subscribe_request],
         pings = 0, output_queue = [], log = [authenticating, authenticated, subscribed]\<rparr>
       [Frame Malformed, Frame (Data ''dummyMessage'')] =
     Some \<lparr>point = Read_wait, connection = 1, sent = [Auth_request, Subscribe_request],
           pings = 0, output_queue = [''dummyMessage''],
           log = [authenticating, authenticated, subscribed, parse_error]\<rparr>
   \<and> step \<lparr>point = Read_wait, connection = 1, sent = [Auth_request, Subscribe_request],
         pings = 0, output_queue = [], log = [authenticating, authenticated, subscribed]\<rparr>
       (Frame (Error_object ''rejected'')) =
     Some \<lparr>point = Close_wait, connection = 1, sent = [Auth_request, Subscribe_request],
           pings = 0, output_queue = [],
           log = [authenticating, authenticated, subscribed, retry_notice]\<rparr>"
  using malformed_frame_is_skipped
    [where s = "\<lparr>point = Read_wait, connection = 1, sent = [Auth_request, Subscribe_request],
         pings = 0, output_queue = [], log = [authenticating, authenticated, subscribed]\<rparr>"
       and m = "''rejected''" and d = "''dummyMessage''"]
  by (simp add: step_def logged_def failed_def)

text \<open>
  C4. Two-tier heartbeat: when the message timeout elapses on a Live session a ping is
  sent and the session stays Live; any number of message timeouts, each answered by a
  pong, leave it reading on the same connection with nothing logged; when the ping
  timeout elapses instead, the ping timeout is logged and the session goes to Closing
  and, the close done and the backoff over, to a new connect.
\<close>

lemma answered_ping:
  "point s = Read_wait \<Longrightarrow> run s [Timeout, Done] = Some (s\<lparr>pings := pings s + 1\<rparr>)"
  by (simp add: step_def)

lemma answered_pings:
  "point s = Read_wait \<Longrightarrow>
     run s (concat (replicate n [Timeout, Done])) = Some (s\<lparr>pings := pings s + n\<rparr>)"
proof (induction n arbitrary: s)
  case 0
  then show ?case by simp
next
  case (Suc n)
  let ?t = "s\<lparr>pings := pings s + 1\<rparr>"
  let ?rest = "concat (replicate n [Timeout, Done])"
  from Suc.prems have first: "run s [Timeout, Done] = Some ?t"
    by (rule answered_ping)
  from Suc.prems have "point ?t = Read_wait"
    by simp
  then have rest: "run ?t ?rest = Some (?t\<lparr>pings := pings ?t + n\<rparr>)"
    by (rule Suc.IH)
  have "run s (concat (replicate (Suc n) [Timeout, Done])) = run s ([Timeout, Done] @ ?rest)"
    by simp
  also have "\<dots> = run ?t ?rest"
    by (simp only: run_append first option.case)
  also have "\<dots> = Some (s\<lparr>pings := pings s + Suc n\<rparr>)"
    using rest by simp
  finally show ?case .
qed

theorem two_tier_heartbeat:
  assumes "point s = Read_wait"
  shows "step s Timeout = Some (s\<lparr>point := Pong_wait, pings := pings s + 1\<rparr>)
   \<and> run s (concat (replicate n [Timeout, Done])) = Some (s\<lparr>pings := pings s + n\<rparr>)
   \<and> run s [Timeout, Timeout] =
        Some (s\<lparr>point := Close_wait, pings := pings s + 1, log := log s @ [ping_timed_out]\<rparr>)
   \<and> run s [Timeout, Timeout, Done, Done] =
        Some (s\<lparr>point := Connect_wait, pings := pings s + 1, log := log s @ [ping_timed_out]\<rparr>)"
proof -
  from assms have "step s Timeout = Some (s\<lparr>point := Pong_wait, pings := pings s + 1\<rparr>)"
    by (simp add: step_def)
  moreover from assms have
    "run s (concat (replicate n [Timeout, Done])) = Some (s\<lparr>pings := pings s + n\<rparr>)"
    by (rule answered_pings)
  moreover from assms have "run s [Timeout, Timeout] =
        Some (s\<lparr>point := Close_wait, pings := pings s + 1, log := log s @ [ping_timed_out]\<rparr>)"
    by (simp add: step_def logged_def)
  moreover from assms have "run s [Timeout, Timeout, Done, Done] =
        Some (s\<lparr>point := Connect_wait, pings := pings s + 1, log := log s @ [ping_timed_out]\<rparr>)"
    by (simp add: step_def logged_def)
  ultimately show ?thesis by blast
qed

theorem two_tier_heartbeat_witness:
  "run \<lparr>point = Read_wait, connection = 1, sent = [Auth_request, Subscribe_request],
         pings = 0, output_queue = [], log = [authenticating, authenticated, subscribed]\<rparr>
       [Timeout, Done, Timeout, Done, Timeout, Done] =
     Some \<lparr>point = Read_wait, connection = 1, sent = [Auth_request, Subscribe_request],
           pings = 3, output_queue = [], log = [authenticating, authenticated, subscribed]\<rparr>
   \<and> run \<lparr>point = Read_wait, connection = 1, sent = [Auth_request, Subscribe_request],
         pings = 0, output_queue = [], log = [authenticating, authenticated, subscribed]\<rparr>
       [Timeout, Timeout] =
     Some \<lparr>point = Close_wait, connection = 1, sent = [Auth_request, Subscribe_request],
           pings = 1, output_queue = [],
           log = [authenticating, authenticated, subscribed, ping_timed_out]\<rparr>"
  using two_tier_heartbeat
    [where s = "\<lparr>point = Read_wait, connection = 1, sent = [Auth_request, Subscribe_request],
         pings = 0, output_queue = [], log = [authenticating, authenticated, subscribed]\<rparr>"
       and n = 3]
  by (simp add: numeral_3_eq_3 step_def logged_def)

text \<open>
  C5. When the exchange rejects the authentication, the session logs the login error,
  the authentication error and the retry notice and goes straight to Closing; the close
  done and the backoff over, it connects again. However the run goes on, as long as the
  listener has not opened a new connection it has sent nothing more (no subscribe
  request) and is between connections.
\<close>

lemma step_connection_mono: "step s r = Some t \<Longrightarrow> connection s \<le> connection t"
  by (auto simp: step_def logged_def failed_def
      split: suspension.splits response.splits frame.splits)

lemma run_connection_mono: "run s rs = Some t \<Longrightarrow> connection s \<le> connection t"
proof (induction rs arbitrary: s)
  case Nil
  then show ?case by simp
next
  case (Cons r rs)
  then obtain u where u: "step s r = Some u" and t: "run u rs = Some t"
    by (auto split: option.splits)
  from u have "connection s \<le> connection u" by (rule step_connection_mono)
  moreover from t have "connection u \<le> connection t" by (rule Cons.IH)
  ultimately show ?case by simp
qed

lemma step_between_connections:
  "step s r = Some t \<Longrightarrow> between_connections (point s) \<Longrightarrow>
     connection t = connection s \<and> sent t = sent s \<and> between_connections (point t)
     \<or> connection s < connection t"
  by (auto simp: step_def logged_def failed_def between_connections_def
      split: suspension.splits response.splits frame.splits)

lemma run_between_connections:
  "run s rs = Some t \<Longrightarrow> between_connections (point s) \<Longrightarrow> connection t = connection s \<Longrightarrow>
     sent t = sent s \<and> between_connections (point t)"
proof (induction rs arbitrary: s)
  case Nil
  then show ?case by simp
next
  case (Cons r rs)
  then obtain u where u: "step s r = Some u" and t: "run u rs = Some t"
    by (auto split: option.splits)
  from t have le: "connection u \<le> connection t" by (rule run_connection_mono)
  from u Cons.prems(2) have
    "connection u = connection s \<and> sent u = sent s \<and> between_connections (point u)
     \<or> connection s < connection u"
    by (rule step_between_connections)
  with le Cons.prems(3) have same: "connection u = connection s" "sent u = sent s"
    and w: "between_connections (point u)"
    by auto
  from t w same(1) Cons.prems(3) have "sent t = sent u \<and> between_connections (point t)"
    by (intro Cons.IH) simp_all
  with same show ?case by simp
qed

theorem auth_rejection_skips_subscribing:
  assumes "point s = Auth_ack"
  shows "step s (Frame (Error_object m)) =
           Some (s\<lparr>point := Close_wait,
                   log := log s @ [login_error m, auth_error, retry_notice]\<rparr>)
   \<and> run s [Frame (Error_object m), Done, Done] =
           Some (s\<lparr>point := Connect_wait,
                   log := log s @ [login_error m, auth_error, retry_notice]\<rparr>)
   \<and> (\<forall>rs t. run s (Frame (Error_object m) # rs) = Some t \<and> connection t = connection s
          \<longrightarrow> sent t = sent s \<and> between_connections (point t))"
proof -
  let ?u = "s\<lparr>point := Close_wait, log := log s @ [login_error m, auth_error, retry_notice]\<rparr>"
  from assms have first: "step s (Frame (Error_object m)) = Some ?u"
    by (simp add: step_def logged_def failed_def)
  from assms have retry: "run s [Frame (Error_object m), Done, Done] =
      Some (s\<lparr>point := Connect_wait, log := log s @ [login_error m, auth_error, retry_notice]\<rparr>)"
    by (simp add: step_def logged_def failed_def)
  have rest: "sent t = sent s \<and> between_connections (point t)"
    if "run s (Frame (Error_object m) # rs) = Some t" "connection t = connection s" for rs t
  proof -
    from that(1) first have "run ?u rs = Some t" by simp
    moreover have "between_connections (point ?u)" by (simp add: between_connections_def)
    moreover from that(2) have "connection t = connection ?u" by simp
    ultimately have "sent t = sent ?u \<and> between_connections (point t)"
      by (rule run_between_connections)
    then show ?thesis by simp
  qed
  from first retry rest show ?thesis by blast
qed

theorem auth_rejection_skips_subscribing_witness:
  "run \<lparr>point = Auth_ack, connection = 1, sent = [Auth_request], pings = 0,
         output_queue = [], log = [authenticating]\<rparr>
       [Frame (Error_object ''test err message''), Done, Done] =
     Some \<lparr>point = Connect_wait, connection = 1, sent = [Auth_request], pings = 0,
           output_queue = [],
           log = [authenticating, login_error ''test err message'', auth_error, retry_notice]\<rparr>"
  using auth_rejection_skips_subscribing
    [where s = "\<lparr>point = Auth_ack, connection = 1, sent = [Auth_request], pings = 0,
         output_queue = [], log = [authenticating]\<rparr>"
       and m = "''test err message''"]
  by (simp add: step_def logged_def failed_def)

text \<open>
  C6. Cancellation while the connection is being opened, while the credentials are being
  sent or while the subscribe request is being sent ends the listener as Cancelled, with
  nothing logged, and it takes no further step: no close, no backoff, no retry. An
  ordinary failure at the same point logs the retry notice and goes on to the close or
  the backoff.
\<close>

theorem cancellation_is_propagated:
  assumes "point s = Connect_wait \<or> point s = Auth_send \<or> point s = Subscribe_send"
  shows "step s Cancellation = Some (s\<lparr>point := Ended Cancelled\<rparr>)
   \<and> run s (Cancellation # r # rs) = None
   \<and> (\<exists>t. step s Failure = Some t \<and> (point t = Close_wait \<or> point t = Backoff_wait)
          \<and> last (log t) = retry_notice)"
proof -
  from assms have c: "step s Cancellation = Some (s\<lparr>point := Ended Cancelled\<rparr>)"
    by (auto simp: step_def)
  have "step (s\<lparr>point := Ended Cancelled\<rparr>) r = None"
    by (simp add: step_def)
  with c have n: "run s (Cancellation # r # rs) = None"
    by simp
  from assms have "\<exists>t. step s Failure = Some t \<and> (point t = Close_wait \<or> point t = Backoff_wait)
          \<and> last (log t) = retry_notice"
    by (auto simp: step_def logged_def failed_def)
  with c n show ?thesis by blast
qed

theorem cancellation_is_propagated_witness:
  "run listen_for_user_stream [Cancellation] =
     Some \<lparr>point = Ended Cancelled, connection = 0, sent = [], pings = 0,
           output_queue = [], log = []\<rparr>
   \<and> run \<lparr>point = Auth_send, connection = 1, sent = [], pings = 0,
           output_queue = [], log = [authenticating]\<rparr> [Cancellation] =
     Some \<lparr>point = Ended Cancelled, connection = 1, sent = [], pings = 0,
           output_queue = [], log = [authenticating]\<rparr>
   \<and> run \<lparr>point = Subscribe_send, connection = 1, sent = [Auth_request], pings = 0,
           output_queue = [], log = [authenticating, authenticated]\<rparr> [Cancellation] =
     Some \<lparr>point = Ended Cancelled, connection = 1, sent = [Auth_request], pings = 0,
           output_queue = [], log = [authenticating, authenticated]\<rparr>"
  using cancellation_is_propagated [where s = listen_for_user_stream]
    cancellation_is_propagated
      [where s = "\<lparr>point = Auth_send, connection = 1, sent = [], pings = 0,
           output_queue = [], log = [authenticating]\<rparr>"]
    cancellation_is_propagated
      [where s = "\<lparr>point = Subscribe_send, connection = 1, sent = [Auth_request], pings = 0,
           output_queue = [], log = [authenticating, authenticated]\<rparr>"]
  by (simp add: listen_for_user_stream_def)

end
